theory Spec2Isabelle
  imports Main "HOL-Library.Multiset"
begin

section \<open>Dates\<close>

text \<open>
  A JavaScript \<^verbatim>\<open>Date\<close> is a number of milliseconds. All the date operations of the
  components (\<^verbatim>\<open>setHours\<close>, \<^verbatim>\<open>setMinutes\<close>, \<^verbatim>\<open>getMinutes\<close> and the date-fns
  functions \<^verbatim>\<open>startOfDay\<close>, \<^verbatim>\<open>startOfWeek\<close>, \<^verbatim>\<open>addDays\<close>, \<^verbatim>\<open>isBefore\<close>,
  \<^verbatim>\<open>isAfter\<close>, \<^verbatim>\<open>format\<close>) read and write the fields of the local wall clock.
  A date is modelled as the integer number of milliseconds of local wall-clock time
  since local midnight of 1970-01-01, for a zone with a fixed offset (no daylight-saving
  jump): there the local reading is the epoch value shifted by a constant, so order and
  differences of dates are those of the epoch values. Invalid dates (NaN) are not
  modelled.
\<close>

type_synonym date = int

definition MS_PER_MINUTE :: int where
  "MS_PER_MINUTE = 60000"

definition MS_PER_HOUR :: int where
  "MS_PER_HOUR = 3600000"

definition MS_PER_DAY :: int where
  "MS_PER_DAY = 86400000"

text \<open>date-fns \<^verbatim>\<open>startOfDay\<close>: local midnight of the day of the date.\<close>

definition startOfDay :: "date \<Rightarrow> date" where
  "startOfDay t = t - t mod MS_PER_DAY"

text \<open>\<^verbatim>\<open>Date.prototype.getHours\<close>, \<^verbatim>\<open>getMinutes\<close> and \<^verbatim>\<open>getDay\<close> (0 is Sunday;
  1970-01-01 was a Thursday).\<close>

definition getHours :: "date \<Rightarrow> int" where
  "getHours t = (t div MS_PER_HOUR) mod 24"

definition getMinutes :: "date \<Rightarrow> int" where
  "getMinutes t = (t div MS_PER_MINUTE) mod 60"

definition getDay :: "date \<Rightarrow> int" where
  "getDay t = (t div MS_PER_DAY + 4) mod 7"

text \<open>\<^verbatim>\<open>d.setHours(hour, minute, 0, 0)\<close>: the time of day is replaced, the calendar day
  is kept; values outside 0..23 and 0..59 carry into the neighbouring days and hours.
  This is the setter in a zone with a fixed offset: a local time that a daylight-saving
  change skips or repeats does not occur.\<close>

definition setHours :: "date \<Rightarrow> int \<Rightarrow> int \<Rightarrow> date" where
  "setHours t hour minute = startOfDay t + hour * MS_PER_HOUR + minute * MS_PER_MINUTE"

text \<open>\<^verbatim>\<open>d.setMinutes(m)\<close>: the minute field is replaced, all other fields are kept;
  values outside 0..59 carry. Again the setter in a zone with a fixed offset.\<close>

definition setMinutes :: "date \<Rightarrow> int \<Rightarrow> date" where
  "setMinutes t m = t - getMinutes t * MS_PER_MINUTE + m * MS_PER_MINUTE"

text \<open>date-fns \<^verbatim>\<open>addDays\<close>, \<^verbatim>\<open>isBefore\<close>, \<^verbatim>\<open>isAfter\<close>.\<close>

definition addDays :: "date \<Rightarrow> int \<Rightarrow> date" where
  "addDays t amount = t + amount * MS_PER_DAY"

definition isBefore :: "date \<Rightarrow> date \<Rightarrow> bool" where
  "isBefore a b = (a < b)"

definition isAfter :: "date \<Rightarrow> date \<Rightarrow> bool" where
  "isAfter a b = (a > b)"

text \<open>date-fns \<^verbatim>\<open>startOfWeek(date, { weekStartsOn })\<close>: go back to the last day whose
  \<^verbatim>\<open>getDay\<close> is \<^verbatim>\<open>weekStartsOn\<close>, at local midnight.\<close>

definition startOfWeek :: "date \<Rightarrow> int \<Rightarrow> date" where
  "startOfWeek t weekStartsOn =
     (let day = getDay t;
          diff = (if day < weekStartsOn then 7 else 0) + day - weekStartsOn
      in startOfDay (addDays t (- diff)))"

text \<open>date-fns \<^verbatim>\<open>format(d, 'HH:mm')\<close>: hours and minutes, two digits each.\<close>

definition twoDigits :: "int \<Rightarrow> string" where
  "twoDigits n = [char_of (48 + n div 10), char_of (48 + n mod 10)]"

definition format_HHmm :: "date \<Rightarrow> string" where
  "format_HHmm t = twoDigits (getHours t) @ '':'' @ twoDigits (getMinutes t)"

text \<open>Local midnight of the day \<open>d\<close> of month \<open>m\<close> (1 to 12) of year \<open>y\<close>, the
  date that \<^verbatim>\<open>new Date(y, m - 1, d)\<close> builds, for writing concrete inputs: the day
  number in the proleptic Gregorian calendar, counted from 1970-01-01 (the usual
  computation with the year starting in March).\<close>

definition daysFromCivil :: "int \<Rightarrow> int \<Rightarrow> int \<Rightarrow> int" where
  "daysFromCivil y m d =
     (let y' = (if m \<le> 2 then y - 1 else y);
          era = y' div 400;
          yoe = y' - era * 400;
          doy = (153 * (if m > 2 then m - 3 else m + 9) + 2) div 5 + d - 1;
          doe = yoe * 365 + yoe div 4 - yoe div 100 + doy
      in era * 146097 + doe - 719468)"

definition localDate :: "int \<Rightarrow> int \<Rightarrow> int \<Rightarrow> date" where
  "localDate y m d = daysFromCivil y m d * MS_PER_DAY"

text \<open>A time of day on that date: \<^verbatim>\<open>new Date(y, m - 1, d, hour, minute)\<close>.\<close>

definition localDateTime :: "int \<Rightarrow> int \<Rightarrow> int \<Rightarrow> int \<Rightarrow> int \<Rightarrow> date" where
  "localDateTime y m d hour minute = setHours (localDate y m d) hour minute"


section \<open>Data model\<close>

text \<open>Modelled from the spec: the declarations of \<^verbatim>\<open>@/types\<close> (\<^verbatim>\<open>TimeSlot\<close>,
  \<^verbatim>\<open>Appointment\<close>, \<^verbatim>\<open>CalendarConfig\<close>, \<^verbatim>\<open>CalendarView\<close>) are not among the
  sources; the fields are those the components read and the spec's data model lists.
  The field \<^verbatim>\<open>end\<close> is written \<open>end'\<close>, \<^verbatim>\<open>id\<close> and \<^verbatim>\<open>type\<close> are written
  \<open>apt_id\<close> and \<open>apt_type\<close>. \<^verbatim>\<open>startTime\<close> and \<^verbatim>\<open>endTime\<close> are kept as the date
  that \<^verbatim>\<open>new Date(apt.startTime)\<close> reads from them. The hours and the slot duration
  of a configuration are integers.\<close>

record TimeSlot =
  start :: date
  end' :: date
  label :: string

record Appointment =
  apt_id :: string
  patientId :: string
  doctorId :: string
  apt_type :: string
  startTime :: date
  endTime :: date

record CalendarConfig =
  startHour :: int
  endHour :: int
  slotDuration :: int

datatype CalendarView = Day | Week


section \<open>Slot generation (DayView and WeekView, \<^verbatim>\<open>timeSlots\<close>)\<close>

text \<open>The body of the inner loop: one slot starting at \<^verbatim>\<open>hour:minute\<close> of the day of
  \<open>d\<close>.\<close>

definition makeSlot :: "CalendarConfig \<Rightarrow> date \<Rightarrow> int \<Rightarrow> int \<Rightarrow> TimeSlot" where
  "makeSlot cfg d hour minute =
     (let s = setHours d hour minute;
          e = setMinutes s (getMinutes s + slotDuration cfg)
      in \<lparr>start = s, end' = e, label = format_HHmm s\<rparr>)"

text \<open>\<^verbatim>\<open>for (let minute = 0; minute < 60; minute += slotDuration)\<close>. The loop need not
  terminate: \<open>None\<close> is the run that never leaves it.\<close>

partial_function (option) minuteLoop ::
  "CalendarConfig \<Rightarrow> date \<Rightarrow> int \<Rightarrow> int \<Rightarrow> TimeSlot list \<Rightarrow> TimeSlot list option" where
  "minuteLoop cfg d hour minute slots =
     (if minute < 60
      then minuteLoop cfg d hour (minute + slotDuration cfg) (slots @ [makeSlot cfg d hour minute])
      else Some slots)"

declare minuteLoop.simps [code]

text \<open>\<^verbatim>\<open>for (let hour = startHour; hour < endHour; hour++)\<close>.\<close>

function hourLoop ::
  "CalendarConfig \<Rightarrow> date \<Rightarrow> int \<Rightarrow> TimeSlot list \<Rightarrow> TimeSlot list option" where
  "hourLoop cfg d hour slots =
     (if hour < endHour cfg
      then (case minuteLoop cfg d hour 0 slots of
              None \<Rightarrow> None
            | Some slots' \<Rightarrow> hourLoop cfg d (hour + 1) slots')
      else Some slots)"
  by pat_completeness auto
termination
  by (relation "measure (\<lambda>(cfg, d, hour, slots). nat (endHour cfg - hour))") auto

definition timeSlots :: "CalendarConfig \<Rightarrow> date \<Rightarrow> TimeSlot list option" where
  "timeSlots cfg d = hourLoop cfg d (startHour cfg) []"


section \<open>Placement\<close>

subsection \<open>DayView\<close>

definition getAppointmentsForSlot :: "Appointment list \<Rightarrow> TimeSlot \<Rightarrow> Appointment list" where
  "getAppointmentsForSlot appts slot =
     filter (\<lambda>apt.
        let aptStart = startTime apt; aptEnd = endTime apt
        in isBefore aptStart (end' slot) \<and> isAfter aptEnd (start slot)) appts"

text \<open>The rows DayView renders: every generated slot with its appointments.\<close>

definition dayRows ::
  "CalendarConfig \<Rightarrow> Appointment list \<Rightarrow> date \<Rightarrow> (TimeSlot \<times> Appointment list) list option" where
  "dayRows cfg appts d =
     map_option (map (\<lambda>slot. (slot, getAppointmentsForSlot appts slot))) (timeSlots cfg d)"

subsection \<open>WeekView\<close>

definition weekDays :: "date \<Rightarrow> date list" where
  "weekDays weekStartDate = map (\<lambda>i. addDays weekStartDate (int i)) [0..<7]"

definition isSameCalendarDay :: "date \<Rightarrow> date \<Rightarrow> bool" where
  "isSameCalendarDay a b = (startOfDay a = startOfDay b)"

definition getAppointmentsForDay :: "Appointment list \<Rightarrow> date \<Rightarrow> Appointment list" where
  "getAppointmentsForDay appts d = filter (\<lambda>apt. isSameCalendarDay (startTime apt) d) appts"

definition getAppointmentsForDayAndSlot ::
  "CalendarConfig \<Rightarrow> Appointment list \<Rightarrow> date \<Rightarrow> date \<Rightarrow> Appointment list" where
  "getAppointmentsForDayAndSlot cfg appts d slotStart =
     (let slotEnd = setMinutes slotStart (getMinutes slotStart + slotDuration cfg)
      in filter (\<lambda>apt.
           let aptStart = startTime apt; aptEnd = endTime apt
           in isSameCalendarDay aptStart d \<and> isBefore aptStart slotEnd \<and> isAfter aptEnd slotStart)
         appts)"

text \<open>The table WeekView renders: the slots are generated once, on \<^verbatim>\<open>weekStartDate\<close>;
  every row holds one cell per day of the week, filled by
  \<^verbatim>\<open>getAppointmentsForDayAndSlot(day, slot.start)\<close>.\<close>

definition weekRows ::
  "CalendarConfig \<Rightarrow> Appointment list \<Rightarrow> date \<Rightarrow> (TimeSlot \<times> Appointment list list) list option" where
  "weekRows cfg appts weekStartDate =
     map_option
       (map (\<lambda>slot. (slot, map (\<lambda>day. getAppointmentsForDayAndSlot cfg appts day (start slot))
                                 (weekDays weekStartDate))))
       (timeSlots cfg weekStartDate)"


section \<open>ScheduleView: the query window\<close>

text \<open>The parameters of \<^verbatim>\<open>useAppointments\<close>; an absent \<^verbatim>\<open>startDate\<close> or
  \<^verbatim>\<open>endDate\<close> (\<^verbatim>\<open>undefined\<close>) is \<open>None\<close>.\<close>

record UseAppointmentsParams =
  p_doctorId :: string
  p_date :: date
  p_startDate :: "date option"
  p_endDate :: "date option"

definition scheduleParams :: "string \<Rightarrow> date \<Rightarrow> CalendarView \<Rightarrow> UseAppointmentsParams" where
  "scheduleParams selectedDoctorId selectedDate view =
     (let weekStart = startOfWeek selectedDate 1
      in \<lparr>p_doctorId = selectedDoctorId,
          p_date = selectedDate,
          p_startDate = (if view = Week then Some weekStart else None),
          p_endDate = (if view = Week then Some (addDays weekStart 6) else None)\<rparr>)"


section \<open>The hook \<^verbatim>\<open>useAppointments\<close>\<close>

text \<open>A thrown value.\<close>

datatype error = Error string

text \<open>\<^verbatim>\<open>appointmentService\<close> is not among the sources: its two reads are parameters
  of the hook's model. A read returns a list or throws (\<open>Inl\<close>). The lookup of the
  doctor (\<^verbatim>\<open>getDoctorById\<close>, memoised outside the effect) writes none of the three
  state cells and is left out.\<close>

record appointmentService =
  getAppointmentsByDoctorAndDateRange :: "string \<Rightarrow> date \<Rightarrow> date \<Rightarrow> error + Appointment list"
  getAppointmentsByDoctorAndDate :: "string \<Rightarrow> date \<Rightarrow> error + Appointment list"

text \<open>The three \<^verbatim>\<open>useState\<close> cells of the hook and their initial values.\<close>

record HookState =
  appointments :: "Appointment list"
  loading :: bool
  error :: "error option"

definition initialState :: HookState where
  "initialState = \<lparr>appointments = [], loading = True, error = None\<rparr>"

datatype stateWrite =
    SetAppointments "Appointment list"
  | SetLoading bool
  | SetError "error option"

fun applyWrite :: "HookState \<Rightarrow> stateWrite \<Rightarrow> HookState" where
  "applyWrite st (SetAppointments data) = st\<lparr>appointments := data\<rparr>"
| "applyWrite st (SetLoading b) = st\<lparr>loading := b\<rparr>"
| "applyWrite st (SetError e) = st\<lparr>error := e\<rparr>"

text \<open>The read inside \<^verbatim>\<open>try\<close>: the range read when both \<^verbatim>\<open>startDate\<close> and
  \<^verbatim>\<open>endDate\<close> are present, the single-date read otherwise.\<close>

definition fetchAppointments ::
  "appointmentService \<Rightarrow> UseAppointmentsParams \<Rightarrow> error + Appointment list" where
  "fetchAppointments svc params =
     (case (p_startDate params, p_endDate params) of
        (Some startDate, Some endDate) \<Rightarrow>
          getAppointmentsByDoctorAndDateRange svc (p_doctorId params) startDate endDate
      | _ \<Rightarrow> getAppointmentsByDoctorAndDate svc (p_doctorId params) (p_date params))"

text \<open>\<^verbatim>\<open>data.sort((a, b) => new Date(a.startTime).getTime() - new Date(b.startTime).getTime())\<close>:
  \<^verbatim>\<open>Array.prototype.sort\<close> is a stable sort; the comparator orders by start time.\<close>

definition sortByStartTime :: "Appointment list \<Rightarrow> Appointment list" where
  "sortByStartTime data = sort_key startTime data"

text \<open>The state writes of one run of the effect, in program order: the two writes before
  \<^verbatim>\<open>try\<close>, the write of the \<^verbatim>\<open>try\<close> block or of \<^verbatim>\<open>catch\<close>, the write of
  \<^verbatim>\<open>finally\<close>. Every throw of the \<^verbatim>\<open>try\<close> block is caught, so a run always ends
  with a state.\<close>

definition effectWrites :: "appointmentService \<Rightarrow> UseAppointmentsParams \<Rightarrow> stateWrite list" where
  "effectWrites svc params =
     [SetLoading True, SetError None] @
     (case fetchAppointments svc params of
        Inr data \<Rightarrow> [SetAppointments (sortByStartTime data)]
      | Inl e \<Rightarrow> [SetError (Some e)]) @
     [SetLoading False]"

definition runEffect :: "appointmentService \<Rightarrow> HookState \<Rightarrow> UseAppointmentsParams \<Rightarrow> HookState" where
  "runEffect svc st params = foldl applyWrite st (effectWrites svc params)"

text \<open>A sequence of runs of the effect, one after the other, each to its end.\<close>

definition runSelections ::
  "appointmentService \<Rightarrow> HookState \<Rightarrow> UseAppointmentsParams list \<Rightarrow> HookState" where
  "runSelections svc st ps = foldl (runEffect svc) st ps"

text \<open>One render of the hook, with the parameters of the selection in force. The render
  returns the three cells as they are when it runs (the \<^verbatim>\<open>return\<close> of the hook); its
  effect runs after the render, to its end before the next render, and only when a
  dependency has changed since the previous render (always on the first render, and on the
  first render after a selection change). The dependencies are compared by identity, so
  whether the effect runs is an input of the model: the flag of the render. In week mode
  \<^verbatim>\<open>endDate\<close> is a new date on every render, and every render has the flag.\<close>

type_synonym render = "UseAppointmentsParams \<times> bool"

definition cellsAfterRender :: "appointmentService \<Rightarrow> HookState \<Rightarrow> render \<Rightarrow> HookState" where
  "cellsAfterRender svc st r = (if snd r then runEffect svc st (fst r) else st)"

definition cellsAfterRenders :: "appointmentService \<Rightarrow> HookState \<Rightarrow> render list \<Rightarrow> HookState" where
  "cellsAfterRenders svc st rs = foldl (cellsAfterRender svc) st rs"



section \<open>Auxiliary definitions\<close>

text \<open>Modelled from the spec: the constant \<^verbatim>\<open>DEFAULT_CALENDAR_CONFIG\<close> is declared in
  \<^verbatim>\<open>@/types\<close>, which is not among the sources. The components take it as the
  parameter \<open>cfg\<close>; this value (08:00 to 18:00 in steps of 30 minutes, as the spec and
  the comments of the components say) is used for concrete inputs only.\<close>

definition DEFAULT_CALENDAR_CONFIG :: CalendarConfig where
  "DEFAULT_CALENDAR_CONFIG = \<lparr>startHour = 8, endHour = 18, slotDuration = 30\<rparr>"

text \<open>An appointment for concrete inputs.\<close>

definition exampleAppointment :: "string \<Rightarrow> date \<Rightarrow> date \<Rightarrow> Appointment" where
  "exampleAppointment i s e =
     \<lparr>apt_id = i, patientId = ''pat-1'', doctorId = ''doc-1'', apt_type = ''checkup'',
      startTime = s, endTime = e\<rparr>"

text \<open>A store for concrete inputs: both reads return the appointments of the doctor,
  in the order of the store, and throw for the doctor \<^verbatim>\<open>doc-err\<close>.\<close>

definition exampleService :: "Appointment list \<Rightarrow> appointmentService" where
  "exampleService store =
     \<lparr>getAppointmentsByDoctorAndDateRange =
        (\<lambda>doctor startDate endDate.
           if doctor = ''doc-err'' then Inl (Error ''read failed'')
           else Inr (filter (\<lambda>apt. doctorId apt = doctor) store)),
      getAppointmentsByDoctorAndDate =
        (\<lambda>doctor day.
           if doctor = ''doc-err'' then Inl (Error ''read failed'')
           else Inr (filter (\<lambda>apt. doctorId apt = doctor) store))\<rparr>"

text \<open>The number of rounds of the minute loop entered at \<open>minute\<close>, for a positive
  step \<open>dur\<close>.\<close>

definition minuteCount :: "int \<Rightarrow> int \<Rightarrow> nat" where
  "minuteCount dur minute = (if minute < 60 then nat ((59 - minute) div dur) + 1 else 0)"

text \<open>The week cell as the specification words it: the appointments that start on the
  calendar day of column \<open>i\<close> and overlap the slot's interval moved to that day.\<close>

definition weekCellSpec :: "Appointment list \<Rightarrow> date \<Rightarrow> int \<Rightarrow> TimeSlot \<Rightarrow> Appointment list" where
  "weekCellSpec appts weekStartDate i slot =
     filter (\<lambda>apt.
        isSameCalendarDay (startTime apt) (addDays weekStartDate i) \<and>
        startTime apt < addDays (end' slot) i \<and>
        addDays (start slot) i < endTime apt) appts"

section \<open>Facts about dates\<close>

lemma startOfDay_eq: "startOfDay t = t div MS_PER_DAY * MS_PER_DAY"
  by (simp add: startOfDay_def minus_mod_eq_div_mult)

lemma startOfDay_le: "startOfDay t \<le> t"
  by (simp add: startOfDay_def MS_PER_DAY_def)

lemma startOfDay_gt: "t < startOfDay t + MS_PER_DAY"
  by (simp add: startOfDay_def MS_PER_DAY_def)

lemma startOfDay_addDays: "startOfDay (addDays t n) = addDays (startOfDay t) n"
  by (simp add: startOfDay_def addDays_def)

lemma startOfDay_idem: "startOfDay (startOfDay t) = startOfDay t"
  by (simp add: startOfDay_eq MS_PER_DAY_def)

lemma getDay_addDays: "getDay (addDays t n) = (getDay t + n) mod 7"
  by (simp add: getDay_def addDays_def MS_PER_DAY_def add.commute add.left_commute mod_simps)

lemma getDay_startOfDay: "getDay (startOfDay t) = getDay t"
  by (simp add: getDay_def startOfDay_eq MS_PER_DAY_def)

lemma getDay_range: "0 \<le> getDay t \<and> getDay t < 7"
  by (simp add: getDay_def)

lemma startOfWeek_monday_diff:
  "startOfWeek t 1 = addDays (startOfDay t) (- ((getDay t + 6) mod 7))"
proof -
  define g where "g = getDay t"
  have "0 \<le> g \<and> g < 7" unfolding g_def by (rule getDay_range)
  then have "(if g < 1 then 7 else 0) + g - 1 = (g + 6) mod 7"
    by presburger
  then have "startOfDay (addDays t (- ((if g < 1 then 7 else 0) + g - 1))) =
             startOfDay (addDays t (- ((g + 6) mod 7)))"
    by (simp only:)
  then show ?thesis
    unfolding startOfWeek_def Let_def g_def by (simp only: startOfDay_addDays)
qed

lemma startOfWeek_is_monday: "getDay (startOfWeek t 1) = 1"
  unfolding startOfWeek_monday_diff getDay_addDays getDay_startOfDay
  using getDay_range[of t] by presburger

lemma startOfWeek_midnight: "startOfDay (startOfWeek t 1) = startOfWeek t 1"
  by (simp add: startOfWeek_monday_diff startOfDay_addDays startOfDay_idem)

lemma startOfWeek_contains:
  "startOfWeek t 1 \<le> t \<and> t < addDays (startOfWeek t 1) 7"
proof -
  have r: "0 \<le> (getDay t + 6) mod 7 \<and> (getDay t + 6) mod 7 \<le> 6" by presburger
  have "startOfWeek t 1 = startOfDay t - ((getDay t + 6) mod 7) * MS_PER_DAY"
    by (simp add: startOfWeek_monday_diff addDays_def)
  then show ?thesis using r startOfDay_le[of t] startOfDay_gt[of t]
    by (simp add: addDays_def MS_PER_DAY_def)
qed


section \<open>Facts about slot generation\<close>

lemma makeSlot_start: "start (makeSlot cfg d hour minute) = setHours d hour minute"
  by (simp add: makeSlot_def Let_def)

lemma makeSlot_end:
  "end' (makeSlot cfg d hour minute) = setHours d hour minute + slotDuration cfg * MS_PER_MINUTE"
  by (simp add: makeSlot_def Let_def setMinutes_def algebra_simps)

lemma setHours_next_hour: "setHours d (hour + 1) minute = setHours d hour (minute + 60)"
  by (simp add: setHours_def MS_PER_HOUR_def MS_PER_MINUTE_def algebra_simps)

lemma makeSlot_next_hour: "makeSlot cfg d (hour + 1) minute = makeSlot cfg d hour (minute + 60)"
  by (simp add: makeSlot_def setHours_next_hour)

lemma minuteCount_step:
  assumes "0 < dur" "minute < 60"
  shows "minuteCount dur minute = Suc (minuteCount dur (minute + dur))"
proof (cases "minute + dur < 60")
  case True
  have "(59 - minute) div dur = (59 - (minute + dur) + dur) div dur" by simp
  also have "\<dots> = (59 - (minute + dur)) div dur + 1"
    using assms(1) by (simp only: div_add_self2) 
  finally have e: "(59 - minute) div dur = (59 - (minute + dur)) div dur + 1" .
  have "0 \<le> (59 - (minute + dur)) div dur"
    using True assms(1) by (simp add: pos_imp_zdiv_nonneg_iff)
  then show ?thesis using True assms(2) e by (simp add: minuteCount_def nat_add_distrib)
next
  case False
  then have "(59 - minute) div dur = 0" using assms by (simp add: div_pos_pos_trivial)
  then show ?thesis using False assms by (simp add: minuteCount_def)
qed

lemma minuteLoop_closed:
  assumes "0 < slotDuration cfg"
  shows "minuteLoop cfg d hour minute slots =
          Some (slots @ map (\<lambda>k. makeSlot cfg d hour (minute + int k * slotDuration cfg))
                            [0..<minuteCount (slotDuration cfg) minute])"
proof (induction "nat (60 - minute)" arbitrary: minute slots rule: less_induct)
  case less
  show ?case
  proof (cases "minute < 60")
    case False
    then show ?thesis by (subst minuteLoop.simps) (simp add: minuteCount_def)
  next
    case True
    let ?dur = "slotDuration cfg"
    have m: "nat (60 - (minute + ?dur)) < nat (60 - minute)" using True assms by simp
    have "minuteLoop cfg d hour minute slots =
            minuteLoop cfg d hour (minute + ?dur) (slots @ [makeSlot cfg d hour minute])"
      using True by (subst minuteLoop.simps) simp
    also have "\<dots> = Some ((slots @ [makeSlot cfg d hour minute]) @
         map (\<lambda>k. makeSlot cfg d hour (minute + ?dur + int k * ?dur)) [0..<minuteCount ?dur (minute + ?dur)])"
      by (rule less[OF m])
    also have "\<dots> = Some (slots @ map (\<lambda>k. makeSlot cfg d hour (minute + int k * ?dur))
                            [0..<minuteCount ?dur minute])"
      unfolding minuteCount_step[OF assms True]
      by (simp add: map_upt_Suc algebra_simps del: upt_Suc)
    finally show ?thesis .
  qed
qed

lemma minuteCount_dvd:
  assumes "0 < dur" "dur dvd 60"
  shows "minuteCount dur 0 = nat (60 div dur)"
proof -
  from assms obtain q where q: "60 = dur * q" by (auto simp: dvd_def)
  with assms(1) have qpos: "0 < q" by (metis zero_less_mult_pos zero_less_numeral)
  have e: "(q - 1) * dur + (dur - 1) = 59" using q by (simp add: algebra_simps)
  have "((q - 1) * dur + (dur - 1)) div dur = q - 1" using assms(1) by (simp add: div_pos_pos_trivial)
  then have "59 div dur = q - 1" by (simp only: e)
  moreover have "60 div dur = q" using assms(1) by (simp add: q)
  ultimately show ?thesis using qpos by (simp add: minuteCount_def)
qed

lemma hourLoop_closed:
  assumes dur: "0 < slotDuration cfg" "slotDuration cfg dvd 60"
    and le: "hour \<le> endHour cfg"
  shows "hourLoop cfg d hour slots =
    Some (slots @ map (\<lambda>k. makeSlot cfg d hour (int k * slotDuration cfg))
                      [0..<nat ((endHour cfg - hour) * (60 div slotDuration cfg))])"
  using le
proof (induction "nat (endHour cfg - hour)" arbitrary: hour slots)
  case 0
  then have "hour = endHour cfg" by simp
  then show ?case by simp
next
  case (Suc n)
  let ?dur = "slotDuration cfg"
  let ?q = "nat (60 div ?dur)"
  let ?n' = "nat ((endHour cfg - (hour + 1)) * (60 div ?dur))"
  let ?f = "\<lambda>k. makeSlot cfg d hour (int k * ?dur)"
  from Suc.hyps(2) have lt: "hour < endHour cfg" by simp
  have q0: "0 \<le> 60 div ?dur" using dur(1) pos_imp_zdiv_nonneg_iff[of ?dur 60] by simp
  have qd: "int ?q * ?dur = 60" using dur(2) q0 by simp
  have n: "nat ((endHour cfg - hour) * (60 div ?dur)) = ?q + ?n'"
  proof -
    have "(endHour cfg - hour) * (60 div ?dur) = 60 div ?dur + (endHour cfg - (hour + 1)) * (60 div ?dur)"
      by (simp add: algebra_simps)
    moreover have "0 \<le> (endHour cfg - (hour + 1)) * (60 div ?dur)" using lt q0 by simp
    ultimately show ?thesis using q0 by (simp add: nat_add_distrib)
  qed
  have shift: "makeSlot cfg d (hour + 1) (int k * ?dur) = ?f (k + ?q)" for k
  proof -
    have "int (k + ?q) * ?dur = int k * ?dur + 60" using qd by (simp add: algebra_simps)
    then show ?thesis by (simp only: makeSlot_next_hour)
  qed
  have inner: "minuteLoop cfg d hour 0 slots = Some (slots @ map ?f [0..<?q])"
    by (simp add: minuteLoop_closed[OF dur(1)] minuteCount_dvd[OF dur])
  have IH: "hourLoop cfg d (hour + 1) (slots @ map ?f [0..<?q]) =
      Some ((slots @ map ?f [0..<?q]) @ map (\<lambda>k. makeSlot cfg d (hour + 1) (int k * ?dur)) [0..<?n'])"
    using Suc.hyps(2) lt by (intro Suc.hyps(1)) simp_all
  have tail: "map (\<lambda>k. makeSlot cfg d (hour + 1) (int k * ?dur)) [0..<?n'] = map ?f [?q..<?q + ?n']"
  proof -
    have "map (\<lambda>k. makeSlot cfg d (hour + 1) (int k * ?dur)) [0..<?n'] =
          map (\<lambda>k. ?f (k + ?q)) [0..<?n']"
      by (simp only: shift)
    also have "\<dots> = map ?f (map (\<lambda>k. k + ?q) [0..<?n'])"
      by (simp add: comp_def)
    also have "map (\<lambda>k. k + ?q) [0..<?n'] = [?q..<?n' + ?q]"
      by (rule map_add_upt)
    finally show ?thesis by (simp only: add.commute[of ?n' ?q])
  qed
  have "map ?f [0..<?q + ?n'] = map ?f [0..<?q] @ map ?f [?q..<?q + ?n']"
    by (simp only: upt_add_eq_append[OF le0] map_append)
  then have all: "map ?f [0..<?q] @ map (\<lambda>k. makeSlot cfg d (hour + 1) (int k * ?dur)) [0..<?n'] =
      map ?f [0..<nat ((endHour cfg - hour) * (60 div ?dur))]"
    by (simp only: tail n)
  have "hourLoop cfg d hour slots = hourLoop cfg d (hour + 1) (slots @ map ?f [0..<?q])"
    using lt inner by (subst hourLoop.simps) simp
  also note IH
  finally show ?case by (simp only: all append_assoc)
qed

lemma hourLoop_total:
  assumes "0 < slotDuration cfg"
  shows "\<exists>r. hourLoop cfg d hour slots = Some r"
proof (induction "nat (endHour cfg - hour)" arbitrary: hour slots)
  case 0
  then show ?case by simp
next
  case (Suc n)
  from Suc.hyps(2) have lt: "hour < endHour cfg" by simp
  obtain s' where s': "minuteLoop cfg d hour 0 slots = Some s'"
    using minuteLoop_closed[OF assms] by blast
  have "\<exists>r. hourLoop cfg d (hour + 1) s' = Some r"
    using Suc.hyps(2) by (intro Suc.hyps(1)) simp
  then show ?case using lt s' by (subst hourLoop.simps) simp
qed

lemma minuteLoop_Some_imp:
  assumes "minuteLoop cfg d hour minute slots = Some r"
  shows "0 < slotDuration cfg \<or> 60 \<le> minute"
proof (rule minuteLoop.raw_induct
    [where P = "\<lambda>cfg d hour minute slots r. 0 < slotDuration cfg \<or> 60 \<le> minute", OF _ assms])
  fix f cfg d hour minute slots r
  assume IH: "\<And>cfg d hour minute slots r.
      f cfg d hour minute slots = Some r \<Longrightarrow> 0 < slotDuration cfg \<or> 60 \<le> (minute::int)"
    and step: "(if minute < 60
      then f cfg d hour (minute + slotDuration cfg) (slots @ [makeSlot cfg d hour minute])
      else Some slots) = Some (r::TimeSlot list)"
  show "0 < slotDuration cfg \<or> 60 \<le> minute"
  proof (cases "minute < 60")
    case True
    with step have "f cfg d hour (minute + slotDuration cfg) (slots @ [makeSlot cfg d hour minute]) = Some r"
      by simp
    from IH[OF this] True show ?thesis by arith
  next
    case False
    then show ?thesis by simp
  qed
qed

lemma minuteLoop_diverges:
  assumes "slotDuration cfg \<le> 0" "minute < 60"
  shows "minuteLoop cfg d hour minute slots = None"
proof (cases "minuteLoop cfg d hour minute slots")
  case None
  then show ?thesis .
next
  case (Some r)
  from minuteLoop_Some_imp[OF this] assms show ?thesis by simp
qed

lemma timeSlots_diverges:
  assumes "slotDuration cfg \<le> 0" "startHour cfg < endHour cfg"
  shows "timeSlots cfg d = None"
  using assms by (simp add: timeSlots_def minuteLoop_diverges)

lemma timeSlots_empty:
  assumes "endHour cfg \<le> startHour cfg"
  shows "timeSlots cfg d = Some []"
  using assms by (simp add: timeSlots_def)

lemma timeSlots_closed:
  assumes "0 < slotDuration cfg" "slotDuration cfg dvd 60" "startHour cfg \<le> endHour cfg"
  shows "timeSlots cfg d =
    Some (map (\<lambda>k. makeSlot cfg d (startHour cfg) (int k * slotDuration cfg))
              [0..<nat ((endHour cfg - startHour cfg) * 60 div slotDuration cfg)])"
proof -
  have "(endHour cfg - startHour cfg) * (60 div slotDuration cfg) =
        (endHour cfg - startHour cfg) * 60 div slotDuration cfg"
    using assms(2) by (rule div_mult_swap)
  then show ?thesis
    using hourLoop_closed[OF assms(1,2,3), of d "[]"] by (simp add: timeSlots_def)
qed

lemma slot_count_mult:
  assumes "0 < dur" "dur dvd 60" "(sh::int) \<le> eh"
  shows "int (nat ((eh - sh) * 60 div dur)) * dur = (eh - sh) * 60"
proof -
  have "dur dvd (eh - sh) * 60" using assms(2) by simp
  then have "(eh - sh) * 60 div dur * dur = (eh - sh) * 60" by simp
  moreover have "0 \<le> (eh - sh) * 60 div dur"
    using assms(1,3) pos_imp_zdiv_nonneg_iff[of dur "(eh - sh) * 60"] by simp
  ultimately show ?thesis by simp
qed

lemma localDateTime_ms:
  "localDateTime y m d hour minute =
     daysFromCivil y m d * 86400000 + hour * 3600000 + minute * 60000"
  by (simp add: localDateTime_def localDate_def setHours_def startOfDay_def
      MS_PER_DAY_def MS_PER_HOUR_def MS_PER_MINUTE_def)

lemma timeSlots_45:
  "timeSlots \<lparr>startHour = 8, endHour = 10, slotDuration = 45\<rparr> (localDate 2024 1 1) =
     Some [\<lparr>start = localDateTime 2024 1 1 8 0, end' = localDateTime 2024 1 1 8 45, label = ''08:00''\<rparr>,
           \<lparr>start = localDateTime 2024 1 1 8 45, end' = localDateTime 2024 1 1 9 30, label = ''08:45''\<rparr>,
           \<lparr>start = localDateTime 2024 1 1 9 0, end' = localDateTime 2024 1 1 9 45, label = ''09:00''\<rparr>,
           \<lparr>start = localDateTime 2024 1 1 9 45, end' = localDateTime 2024 1 1 10 30, label = ''09:45''\<rparr>]"
  by code_simp


section \<open>Placement in DayView\<close>

text \<open>The scenario of the specification: from 08:00 to 10:00 in steps of 30 minutes on
  2024-01-01 there are four slots, and an appointment from 09:15 to 09:45 is in the third
  and the fourth only.\<close>

lemma day_view_scenario:
  "map_option (map (\<lambda>(slot, placed). (label slot, map apt_id placed)))
     (dayRows \<lparr>startHour = 8, endHour = 10, slotDuration = 30\<rparr>
        [exampleAppointment ''a1'' (localDateTime 2024 1 1 9 15) (localDateTime 2024 1 1 9 45)]
        (localDate 2024 1 1))
   = Some [(''08:00'', []), (''08:30'', []), (''09:00'', [''a1'']), (''09:30'', [''a1''])]"
  by code_simp

text \<open>
  C1. For every appointment and every slot (in particular every generated slot of the
  day view), the appointment is in the result of \<^verbatim>\<open>getAppointmentsForSlot\<close> for the
  slot exactly when it is one of the appointments handed to the view, its start time is
  before the slot's end and its end time is after the slot's start. An appointment that
  ends at the slot's start, or starts at the slot's end, is not in the result.
\<close>

theorem day_slot_placement:
  "(apt \<in> set (getAppointmentsForSlot appts slot) \<longleftrightarrow>
      apt \<in> set appts \<and> startTime apt < end' slot \<and> endTime apt > start slot) \<and>
   (endTime apt = start slot \<longrightarrow> apt \<notin> set (getAppointmentsForSlot appts slot)) \<and>
   (startTime apt = end' slot \<longrightarrow> apt \<notin> set (getAppointmentsForSlot appts slot))"
  by (auto simp: getAppointmentsForSlot_def isBefore_def isAfter_def Let_def)

theorem day_slot_placement_witness:
  "endTime (exampleAppointment ''a1'' (localDateTime 2024 1 1 8 30) (localDateTime 2024 1 1 9 0))
     = start (makeSlot DEFAULT_CALENDAR_CONFIG (localDate 2024 1 1) 9 0) \<and>
   exampleAppointment ''a1'' (localDateTime 2024 1 1 8 30) (localDateTime 2024 1 1 9 0)
     \<notin> set (getAppointmentsForSlot
          [exampleAppointment ''a1'' (localDateTime 2024 1 1 8 30) (localDateTime 2024 1 1 9 0),
           exampleAppointment ''a2'' (localDateTime 2024 1 1 9 30) (localDateTime 2024 1 1 10 0)]
          (makeSlot DEFAULT_CALENDAR_CONFIG (localDate 2024 1 1) 9 0)) \<and>
   startTime (exampleAppointment ''a2'' (localDateTime 2024 1 1 9 30) (localDateTime 2024 1 1 10 0))
     = end' (makeSlot DEFAULT_CALENDAR_CONFIG (localDate 2024 1 1) 9 0) \<and>
   exampleAppointment ''a2'' (localDateTime 2024 1 1 9 30) (localDateTime 2024 1 1 10 0)
     \<notin> set (getAppointmentsForSlot
          [exampleAppointment ''a1'' (localDateTime 2024 1 1 8 30) (localDateTime 2024 1 1 9 0),
           exampleAppointment ''a2'' (localDateTime 2024 1 1 9 30) (localDateTime 2024 1 1 10 0)]
          (makeSlot DEFAULT_CALENDAR_CONFIG (localDate 2024 1 1) 9 0))"
proof -
  let ?a1 = "exampleAppointment ''a1'' (localDateTime 2024 1 1 8 30) (localDateTime 2024 1 1 9 0)"
  let ?a2 = "exampleAppointment ''a2'' (localDateTime 2024 1 1 9 30) (localDateTime 2024 1 1 10 0)"
  let ?s = "makeSlot DEFAULT_CALENDAR_CONFIG (localDate 2024 1 1) 9 0"
  have e1: "endTime ?a1 = start ?s"
    by (simp add: exampleAppointment_def makeSlot_start localDateTime_def)
  have e2: "startTime ?a2 = end' ?s"
    by (simp add: exampleAppointment_def makeSlot_end localDateTime_def setHours_def
        DEFAULT_CALENDAR_CONFIG_def MS_PER_MINUTE_def)
  from e1 e2 day_slot_placement[of ?a1 "[?a1, ?a2]" ?s] day_slot_placement[of ?a2 "[?a1, ?a2]" ?s]
  show ?thesis by blast
qed


section \<open>The slot grid\<close>

text \<open>
  C3, amended. In a time zone with a fixed offset (no daylight-saving change, which is
  what \<open>setHours\<close> and \<open>setMinutes\<close> model), for every configuration whose slot
  duration is positive and divides 60, with \<^verbatim>\<open>endHour > startHour\<close>, and every anchor
  date, slot generation returns a
  sequence of exactly \<open>(endHour - startHour) * 60 div slotDuration\<close> slots; each slot
  ends where the next one starts, an earlier slot ends no later than a later slot starts,
  every slot has positive length, and no slot ends after \<^verbatim>\<open>endHour:00\<close> of the anchor
  date.
\<close>

theorem timeSlots_grid:
  assumes "0 < slotDuration cfg" "slotDuration cfg dvd 60" "startHour cfg < endHour cfg"
  shows "\<exists>slots. timeSlots cfg d = Some slots
    \<and> length slots = nat ((endHour cfg - startHour cfg) * 60 div slotDuration cfg)
    \<and> (\<forall>i. Suc i < length slots \<longrightarrow> end' (slots ! i) = start (slots ! Suc i))
    \<and> (\<forall>i j. i < j \<and> j < length slots \<longrightarrow> end' (slots ! i) \<le> start (slots ! j))
    \<and> (\<forall>i < length slots. start (slots ! i) < end' (slots ! i))
    \<and> (\<forall>i < length slots. end' (slots ! i) \<le> setHours d (endHour cfg) 0)"
proof -
  let ?dur = "slotDuration cfg"
  let ?n = "nat ((endHour cfg - startHour cfg) * 60 div ?dur)"
  let ?f = "\<lambda>k. makeSlot cfg d (startHour cfg) (int k * ?dur)"
  let ?slots = "map ?f [0..<?n]"
  have le: "startHour cfg \<le> endHour cfg" using assms(3) by simp
  have ts: "timeSlots cfg d = Some ?slots"
    using assms(1,2) le by (rule timeSlots_closed)
  have st: "start (?f k) = setHours d (startHour cfg) 0 + int k * ?dur * MS_PER_MINUTE" for k
    by (simp add: makeSlot_start setHours_def algebra_simps)
  have en: "end' (?f k) = setHours d (startHour cfg) 0 + (int k + 1) * ?dur * MS_PER_MINUTE" for k
    by (simp add: makeSlot_end setHours_def algebra_simps)
  have step: "0 \<le> ?dur * MS_PER_MINUTE" using assms(1) by (simp add: MS_PER_MINUTE_def)
  have nth: "?slots ! i = ?f i" if "i < ?n" for i
    using that by simp
  have len: "length ?slots = ?n" by simp
  have adj: "end' (?f i) = start (?f (Suc i))" for i
    unfolding st en by (simp add: algebra_simps)
  have mono: "end' (?f i) \<le> start (?f j)" if "i < j" for i j
  proof -
    from that have "int i + 1 \<le> int j" by simp
    then have "(int i + 1) * (?dur * MS_PER_MINUTE) \<le> int j * (?dur * MS_PER_MINUTE)"
      using step by (rule mult_right_mono)
    then show ?thesis unfolding st en by (simp add: mult.assoc)
  qed
  have pos: "start (?f i) < end' (?f i)" for i
    unfolding st en using assms(1) by (simp add: algebra_simps MS_PER_MINUTE_def)
  have bound: "end' (?f i) \<le> setHours d (endHour cfg) 0" if "i < ?n" for i
  proof -
    from that have "Suc i \<le> ?n" by (rule Suc_leI)
    then have "int (Suc i) \<le> int ?n" by (simp only: of_nat_le_iff)
    then have "int i + 1 \<le> int ?n" by (simp only: of_nat_Suc add.commute)
    then have "(int i + 1) * (?dur * MS_PER_MINUTE) \<le> int ?n * (?dur * MS_PER_MINUTE)"
      using step by (rule mult_right_mono)
    also have "\<dots> = (int ?n * ?dur) * MS_PER_MINUTE" by (simp only: mult.assoc)
    also have "\<dots> = (endHour cfg - startHour cfg) * 60 * MS_PER_MINUTE"
      by (simp only: slot_count_mult[OF assms(1,2) le])
    finally have "(int i + 1) * ?dur * MS_PER_MINUTE \<le> (endHour cfg - startHour cfg) * 60 * MS_PER_MINUTE"
      by (simp add: mult.assoc)
    then show ?thesis
      unfolding en by (simp add: setHours_def MS_PER_HOUR_def MS_PER_MINUTE_def algebra_simps)
  qed
  have c1: "\<forall>i. Suc i < length ?slots \<longrightarrow> end' (?slots ! i) = start (?slots ! Suc i)"
  proof (intro allI impI)
    fix i assume "Suc i < length ?slots"
    then have "Suc i < ?n" "i < ?n" by simp_all
    then show "end' (?slots ! i) = start (?slots ! Suc i)"
      by (simp only: nth adj)
  qed
  have c2: "\<forall>i j. i < j \<and> j < length ?slots \<longrightarrow> end' (?slots ! i) \<le> start (?slots ! j)"
  proof (intro allI impI)
    fix i j assume a: "i < j \<and> j < length ?slots"
    then have "j < ?n" "i < ?n" by simp_all
    then show "end' (?slots ! i) \<le> start (?slots ! j)"
      using a by (simp only: nth mono)
  qed
  have c3: "\<forall>i < length ?slots. start (?slots ! i) < end' (?slots ! i)"
  proof (intro allI impI)
    fix i assume "i < length ?slots"
    then have "i < ?n" by simp
    then show "start (?slots ! i) < end' (?slots ! i)"
      by (simp only: nth pos)
  qed
  have c4: "\<forall>i < length ?slots. end' (?slots ! i) \<le> setHours d (endHour cfg) 0"
  proof (intro allI impI)
    fix i assume "i < length ?slots"
    then have "i < ?n" by simp
    then show "end' (?slots ! i) \<le> setHours d (endHour cfg) 0"
      by (simp only: nth bound)
  qed
  from ts len c1 c2 c3 c4 show ?thesis by blast
qed

theorem timeSlots_grid_witness:
  "0 < slotDuration DEFAULT_CALENDAR_CONFIG \<and>
   slotDuration DEFAULT_CALENDAR_CONFIG dvd 60 \<and>
   startHour DEFAULT_CALENDAR_CONFIG < endHour DEFAULT_CALENDAR_CONFIG \<and>
   (\<exists>slots. timeSlots DEFAULT_CALENDAR_CONFIG (localDate 2024 1 1) = Some slots
      \<and> length slots = 20
      \<and> (\<forall>i. Suc i < length slots \<longrightarrow> end' (slots ! i) = start (slots ! Suc i))
      \<and> (\<forall>i j. i < j \<and> j < length slots \<longrightarrow> end' (slots ! i) \<le> start (slots ! j))
      \<and> (\<forall>i < length slots. start (slots ! i) < end' (slots ! i))
      \<and> (\<forall>i < length slots. end' (slots ! i) \<le> localDateTime 2024 1 1 18 0))"
  using timeSlots_grid[of DEFAULT_CALENDAR_CONFIG "localDate 2024 1 1"]
  by (simp add: DEFAULT_CALENDAR_CONFIG_def localDateTime_def)

text \<open>With a slot duration of 45 minutes the minute loop starts again at minute 0 of
  every hour: from 08:00 to 10:00 it yields four slots, not two; the slot 08:45 to 09:30
  overlaps the slot 09:00 to 09:45; the last slot ends at 10:30.\<close>

theorem timeSlots_grid_counterexample:
  "0 < slotDuration \<lparr>startHour = 8, endHour = 10, slotDuration = 45\<rparr> \<and>
   startHour \<lparr>startHour = 8, endHour = 10, slotDuration = 45\<rparr>
     < endHour \<lparr>startHour = 8, endHour = 10, slotDuration = 45\<rparr> \<and>
   (\<exists>slots. timeSlots \<lparr>startHour = 8, endHour = 10, slotDuration = 45\<rparr> (localDate 2024 1 1) = Some slots \<and>
      length slots = 4 \<and>
      nat ((10 - 8) * 60 div 45) = 2 \<and>
      end' (slots ! 1) \<noteq> start (slots ! 2) \<and>
      start (slots ! 2) < end' (slots ! 1) \<and>
      localDateTime 2024 1 1 10 0 < end' (slots ! 3))"
  by (simp add: timeSlots_45 localDateTime_ms)


section \<open>Configurations with a non-positive slot duration\<close>

text \<open>
  C8, amended. Slot generation checks nothing about the configuration and has no error
  result. With a positive slot duration it terminates and returns its slots. With a
  non-positive slot duration it does not terminate when \<^verbatim>\<open>startHour < endHour\<close>; for
  any slot duration it returns the empty sequence when \<^verbatim>\<open>endHour <= startHour\<close>.
\<close>

theorem timeSlots_no_validation:
  "(0 < slotDuration cfg \<longrightarrow> (\<exists>slots. timeSlots cfg d = Some slots)) \<and>
   (slotDuration cfg \<le> 0 \<and> startHour cfg < endHour cfg \<longrightarrow> timeSlots cfg d = None) \<and>
   (endHour cfg \<le> startHour cfg \<longrightarrow> timeSlots cfg d = Some [])"
proof (intro conjI impI)
  assume "0 < slotDuration cfg"
  then show "\<exists>slots. timeSlots cfg d = Some slots"
    unfolding timeSlots_def by (rule hourLoop_total)
next
  assume "slotDuration cfg \<le> 0 \<and> startHour cfg < endHour cfg"
  then show "timeSlots cfg d = None" by (simp add: timeSlots_diverges)
next
  assume "endHour cfg \<le> startHour cfg"
  then show "timeSlots cfg d = Some []" by (rule timeSlots_empty)
qed

theorem timeSlots_no_validation_witness:
  "0 < slotDuration DEFAULT_CALENDAR_CONFIG \<and>
   (\<exists>slots. timeSlots DEFAULT_CALENDAR_CONFIG (localDate 2024 1 1) = Some slots) \<and>
   slotDuration \<lparr>startHour = 8, endHour = 18, slotDuration = - 30\<rparr> \<le> 0 \<and>
   startHour \<lparr>startHour = 8, endHour = 18, slotDuration = - 30\<rparr>
     < endHour \<lparr>startHour = 8, endHour = 18, slotDuration = - 30\<rparr> \<and>
   timeSlots \<lparr>startHour = 8, endHour = 18, slotDuration = - 30\<rparr> (localDate 2024 1 1) = None \<and>
   endHour \<lparr>startHour = 18, endHour = 8, slotDuration = 0\<rparr>
     \<le> startHour \<lparr>startHour = 18, endHour = 8, slotDuration = 0\<rparr> \<and>
   timeSlots \<lparr>startHour = 18, endHour = 8, slotDuration = 0\<rparr> (localDate 2024 1 1) = Some []"
  using timeSlots_no_validation[of DEFAULT_CALENDAR_CONFIG "localDate 2024 1 1"]
    timeSlots_no_validation[of "\<lparr>startHour = 8, endHour = 18, slotDuration = - 30\<rparr>" "localDate 2024 1 1"]
    timeSlots_no_validation[of "\<lparr>startHour = 18, endHour = 8, slotDuration = 0\<rparr>" "localDate 2024 1 1"]
  by (simp add: DEFAULT_CALENDAR_CONFIG_def)

text \<open>A slot duration of 0 between 08:00 and 18:00: the minute loop never leaves minute
  0, and no error is signalled.\<close>

theorem timeSlots_no_validation_counterexample:
  "slotDuration \<lparr>startHour = 8, endHour = 18, slotDuration = 0\<rparr> \<le> 0 \<and>
   timeSlots \<lparr>startHour = 8, endHour = 18, slotDuration = 0\<rparr> (localDate 2024 1 1) = None"
  by (simp add: timeSlots_diverges)


section \<open>The query window of the week view\<close>

text \<open>
  C5. For every selected date, the week start computed by ScheduleView is a Monday at
  local midnight, it is the Monday of the week that contains the selected date (the date
  lies in the seven days from it), and the range handed to the hook in week mode runs
  from that Monday to the date six days later. For the Wednesday 2024-01-03 (at any time
  of that day, here midnight and 14:30) the range is 2024-01-01 to 2024-01-07.
\<close>

theorem week_window:
  "getDay (startOfWeek selectedDate 1) = 1 \<and>
   startOfDay (startOfWeek selectedDate 1) = startOfWeek selectedDate 1 \<and>
   startOfWeek selectedDate 1 \<le> selectedDate \<and>
   selectedDate < addDays (startOfWeek selectedDate 1) 7 \<and>
   p_startDate (scheduleParams doctor selectedDate Week) = Some (startOfWeek selectedDate 1) \<and>
   p_endDate (scheduleParams doctor selectedDate Week) = Some (addDays (startOfWeek selectedDate 1) 6) \<and>
   addDays (startOfWeek selectedDate 1) 6 = startOfWeek selectedDate 1 + 6 * MS_PER_DAY \<and>
   getDay (localDate 2024 1 3) = 3 \<and>
   p_startDate (scheduleParams doctor (localDate 2024 1 3) Week) = Some (localDate 2024 1 1) \<and>
   p_endDate (scheduleParams doctor (localDate 2024 1 3) Week) = Some (localDate 2024 1 7) \<and>
   p_startDate (scheduleParams doctor (localDateTime 2024 1 3 14 30) Week) = Some (localDate 2024 1 1) \<and>
   p_endDate (scheduleParams doctor (localDateTime 2024 1 3 14 30) Week) = Some (localDate 2024 1 7)"
proof -
  have a: "startOfWeek (localDate 2024 1 3) 1 = localDate 2024 1 1" by code_simp
  have b: "startOfWeek (localDateTime 2024 1 3 14 30) 1 = localDate 2024 1 1" by code_simp
  have c: "addDays (localDate 2024 1 1) 6 = localDate 2024 1 7" by code_simp
  have d: "getDay (localDate 2024 1 3) = 3" by code_simp
  have e: "p_startDate (scheduleParams doctor t Week) = Some (startOfWeek t 1)" for t
    by (simp add: scheduleParams_def Let_def)
  have f: "p_endDate (scheduleParams doctor t Week) = Some (addDays (startOfWeek t 1) 6)" for t
    by (simp add: scheduleParams_def Let_def)
  have g: "addDays (startOfWeek selectedDate 1) 6 = startOfWeek selectedDate 1 + 6 * MS_PER_DAY"
    by (simp add: addDays_def)
  from startOfWeek_is_monday[of selectedDate] startOfWeek_midnight[of selectedDate]
    startOfWeek_contains[of selectedDate] g d
  show ?thesis by (simp only: e f a b c)
qed


section \<open>Placement in WeekView\<close>

lemma setMinutes_add: "setMinutes t (getMinutes t + n) = t + n * MS_PER_MINUTE"
  by (simp add: setMinutes_def algebra_simps)

lemma getAppointmentsForDayAndSlot_iff:
  "apt \<in> set (getAppointmentsForDayAndSlot cfg appts d slotStart) \<longleftrightarrow>
     apt \<in> set appts \<and> isSameCalendarDay (startTime apt) d \<and>
     startTime apt < slotStart + slotDuration cfg * MS_PER_MINUTE \<and> slotStart < endTime apt"
  by (auto simp: getAppointmentsForDayAndSlot_def Let_def setMinutes_add isBefore_def isAfter_def)

lemma getAppointmentsForSlot_iff:
  "apt \<in> set (getAppointmentsForSlot appts slot) \<longleftrightarrow>
     apt \<in> set appts \<and> startTime apt < end' slot \<and> start slot < endTime apt"
  by (auto simp: getAppointmentsForSlot_def isBefore_def isAfter_def Let_def)

text \<open>The first column is the specification's cell: there the day of the slot is the
  day of the column.\<close>

lemma week_first_column:
  assumes "end' slot = start slot + slotDuration cfg * MS_PER_MINUTE"
  shows "getAppointmentsForDayAndSlot cfg appts (addDays weekStartDate 0) (start slot) =
         weekCellSpec appts weekStartDate 0 slot"
  using assms
  by (simp add: getAppointmentsForDayAndSlot_def weekCellSpec_def Let_def setMinutes_add
      isBefore_def isAfter_def addDays_def)

text \<open>The slots are those of \<^verbatim>\<open>weekStartDate\<close> in every column. A slot that ends by
  midnight of that day is over before any later day begins, so no appointment that starts on
  a later day can start before the slot's end: every cell of the columns 1 to 6 is
  empty.\<close>

lemma week_later_columns_empty:
  assumes "1 \<le> i"
    and "slotStart + slotDuration cfg * MS_PER_MINUTE \<le> startOfDay weekStartDate + MS_PER_DAY"
  shows "getAppointmentsForDayAndSlot cfg appts (addDays weekStartDate i) slotStart = []"
proof -
  have "apt \<notin> set (getAppointmentsForDayAndSlot cfg appts (addDays weekStartDate i) slotStart)" for apt
  proof
    assume "apt \<in> set (getAppointmentsForDayAndSlot cfg appts (addDays weekStartDate i) slotStart)"
    then have same: "startOfDay (startTime apt) = startOfDay (addDays weekStartDate i)"
      and before: "startTime apt < slotStart + slotDuration cfg * MS_PER_MINUTE"
      by (simp_all add: getAppointmentsForDayAndSlot_iff isSameCalendarDay_def)
    have "startOfDay weekStartDate + 1 * MS_PER_DAY \<le> startOfDay weekStartDate + i * MS_PER_DAY"
      using assms(1) by (simp add: MS_PER_DAY_def)
    also have "\<dots> = startOfDay (startTime apt)"
      unfolding same startOfDay_addDays by (simp add: addDays_def)
    also have "\<dots> \<le> startTime apt" by (rule startOfDay_le)
    finally show False using before assms(2) by simp
  qed
  then show ?thesis by (simp add: filter_empty_conv getAppointmentsForDayAndSlot_def) 
qed

text \<open>
  C2. The claim is that, in week mode, every cell holds the appointments that start on
  the day of its column and overlap its slot on that day, in all seven columns. The
  theorem evaluates the week table for the week of Monday 2024-01-01 with the default
  configuration and one appointment on Tuesday 2024-01-02 from 09:00 to 09:30: the table
  has 20 rows, the cell of Tuesday in the row of 09:00 is empty, and so is every other
  cell, while the cell as the specification words it (\<open>weekCellSpec\<close>) holds the
  appointment.
\<close>

theorem week_cell_tuesday:
  "getDay (localDate 2024 1 1) = 1 \<and>
   weekDays (localDate 2024 1 1) ! 1 = localDate 2024 1 2 \<and>
   (\<exists>rows. weekRows DEFAULT_CALENDAR_CONFIG
             [exampleAppointment ''tue'' (localDateTime 2024 1 2 9 0) (localDateTime 2024 1 2 9 30)]
             (localDate 2024 1 1) = Some rows \<and>
      length rows = 20 \<and>
      fst (rows ! 2) = makeSlot DEFAULT_CALENDAR_CONFIG (localDate 2024 1 1) 9 0 \<and>
      snd (rows ! 2) ! 1 = [] \<and>
      concat (concat (map snd rows)) = []) \<and>
   getAppointmentsForDayAndSlot DEFAULT_CALENDAR_CONFIG
      [exampleAppointment ''tue'' (localDateTime 2024 1 2 9 0) (localDateTime 2024 1 2 9 30)]
      (weekDays (localDate 2024 1 1) ! 1)
      (start (makeSlot DEFAULT_CALENDAR_CONFIG (localDate 2024 1 1) 9 0)) = [] \<and>
   weekCellSpec
      [exampleAppointment ''tue'' (localDateTime 2024 1 2 9 0) (localDateTime 2024 1 2 9 30)]
      (localDate 2024 1 1) 1 (makeSlot DEFAULT_CALENDAR_CONFIG (localDate 2024 1 1) 9 0)
    = [exampleAppointment ''tue'' (localDateTime 2024 1 2 9 0) (localDateTime 2024 1 2 9 30)]"
proof -
  let ?tue = "exampleAppointment ''tue'' (localDateTime 2024 1 2 9 0) (localDateTime 2024 1 2 9 30)"
  let ?rows = "the (weekRows DEFAULT_CALENDAR_CONFIG [?tue] (localDate 2024 1 1))"
  have a: "getDay (localDate 2024 1 1) = 1" by code_simp
  have b: "weekDays (localDate 2024 1 1) ! 1 = localDate 2024 1 2" by code_simp
  have c: "weekRows DEFAULT_CALENDAR_CONFIG [?tue] (localDate 2024 1 1) = Some ?rows" by code_simp
  have d: "length ?rows = 20" by code_simp
  have e: "fst (?rows ! 2) = makeSlot DEFAULT_CALENDAR_CONFIG (localDate 2024 1 1) 9 0" by code_simp
  have f: "snd (?rows ! 2) ! 1 = []" by code_simp
  have g: "concat (concat (map snd ?rows)) = []" by code_simp
  have h: "getAppointmentsForDayAndSlot DEFAULT_CALENDAR_CONFIG [?tue]
      (weekDays (localDate 2024 1 1) ! 1)
      (start (makeSlot DEFAULT_CALENDAR_CONFIG (localDate 2024 1 1) 9 0)) = []" by code_simp
  have i: "weekCellSpec [?tue] (localDate 2024 1 1) 1
      (makeSlot DEFAULT_CALENDAR_CONFIG (localDate 2024 1 1) 9 0) = [?tue]" by code_simp
  from c d e f g have "\<exists>rows. weekRows DEFAULT_CALENDAR_CONFIG [?tue] (localDate 2024 1 1) = Some rows \<and>
      length rows = 20 \<and>
      fst (rows ! 2) = makeSlot DEFAULT_CALENDAR_CONFIG (localDate 2024 1 1) 9 0 \<and>
      snd (rows ! 2) ! 1 = [] \<and>
      concat (concat (map snd rows)) = []" by blast
  with a b h i show ?thesis by blast
qed


section \<open>Malformed appointments\<close>

text \<open>
  C4, amended. Placement never fails, and it does not filter malformed appointments out.
  An appointment with \<^verbatim>\<open>endTime <= startTime\<close> is in the result of a slot exactly when
  it is one of the appointments of the view and both its end points lie inside the slot
  (\<^verbatim>\<open>slot.start < endTime\<close> and \<^verbatim>\<open>startTime < slot.end\<close>), in week mode on the column
  of its start day only; it is excluded from every other slot, so of two slots that do
  not overlap at most one holds it.
\<close>

theorem malformed_placement:
  assumes "endTime apt \<le> startTime apt"
  shows "(apt \<in> set (getAppointmentsForSlot appts slot) \<longleftrightarrow>
            apt \<in> set appts \<and> start slot < endTime apt \<and> startTime apt < end' slot) \<and>
         (apt \<in> set (getAppointmentsForDayAndSlot cfg appts d slotStart) \<longleftrightarrow>
            apt \<in> set appts \<and> isSameCalendarDay (startTime apt) d \<and>
            slotStart < endTime apt \<and> startTime apt < slotStart + slotDuration cfg * MS_PER_MINUTE) \<and>
         (end' slot \<le> start slot2 \<longrightarrow>
            \<not> (apt \<in> set (getAppointmentsForSlot appts slot) \<and>
               apt \<in> set (getAppointmentsForSlot appts slot2)))"
  using assms by (auto simp: getAppointmentsForSlot_iff getAppointmentsForDayAndSlot_iff)

theorem malformed_placement_witness:
  "endTime (exampleAppointment ''bad'' (localDateTime 2024 1 1 9 20) (localDateTime 2024 1 1 9 10))
     \<le> startTime (exampleAppointment ''bad'' (localDateTime 2024 1 1 9 20) (localDateTime 2024 1 1 9 10)) \<and>
   exampleAppointment ''bad'' (localDateTime 2024 1 1 9 20) (localDateTime 2024 1 1 9 10)
     \<in> set (getAppointmentsForSlot
        [exampleAppointment ''bad'' (localDateTime 2024 1 1 9 20) (localDateTime 2024 1 1 9 10)]
        (makeSlot DEFAULT_CALENDAR_CONFIG (localDate 2024 1 1) 9 0)) \<and>
   end' (makeSlot DEFAULT_CALENDAR_CONFIG (localDate 2024 1 1) 9 0)
     \<le> start (makeSlot DEFAULT_CALENDAR_CONFIG (localDate 2024 1 1) 9 30) \<and>
   exampleAppointment ''bad'' (localDateTime 2024 1 1 9 20) (localDateTime 2024 1 1 9 10)
     \<notin> set (getAppointmentsForSlot
        [exampleAppointment ''bad'' (localDateTime 2024 1 1 9 20) (localDateTime 2024 1 1 9 10)]
        (makeSlot DEFAULT_CALENDAR_CONFIG (localDate 2024 1 1) 9 30))"
proof -
  let ?bad = "exampleAppointment ''bad'' (localDateTime 2024 1 1 9 20) (localDateTime 2024 1 1 9 10)"
  let ?s1 = "makeSlot DEFAULT_CALENDAR_CONFIG (localDate 2024 1 1) 9 0"
  let ?s2 = "makeSlot DEFAULT_CALENDAR_CONFIG (localDate 2024 1 1) 9 30"
  have m: "endTime ?bad \<le> startTime ?bad"
    by (simp add: exampleAppointment_def localDateTime_ms)
  have t: "start ?s1 < endTime ?bad" "startTime ?bad < end' ?s1" "end' ?s1 \<le> start ?s2"
    by (simp_all add: exampleAppointment_def localDateTime_ms makeSlot_start makeSlot_end
        localDateTime_ms[unfolded localDateTime_def] DEFAULT_CALENDAR_CONFIG_def MS_PER_MINUTE_def)
  from m t malformed_placement[OF m, of "[?bad]" ?s1 DEFAULT_CALENDAR_CONFIG "localDate 2024 1 1" 0 ?s2]
  show ?thesis by simp
qed

text \<open>An appointment from 09:20 back to 09:10 is placed in the slot 09:00 to 09:30, in the
  day view and in the first column of the week view.\<close>

theorem malformed_placement_counterexample:
  "endTime (exampleAppointment ''bad'' (localDateTime 2024 1 1 9 20) (localDateTime 2024 1 1 9 10))
     \<le> startTime (exampleAppointment ''bad'' (localDateTime 2024 1 1 9 20) (localDateTime 2024 1 1 9 10)) \<and>
   getAppointmentsForSlot
     [exampleAppointment ''bad'' (localDateTime 2024 1 1 9 20) (localDateTime 2024 1 1 9 10)]
     (makeSlot DEFAULT_CALENDAR_CONFIG (localDate 2024 1 1) 9 0)
   = [exampleAppointment ''bad'' (localDateTime 2024 1 1 9 20) (localDateTime 2024 1 1 9 10)] \<and>
   getAppointmentsForDayAndSlot DEFAULT_CALENDAR_CONFIG
     [exampleAppointment ''bad'' (localDateTime 2024 1 1 9 20) (localDateTime 2024 1 1 9 10)]
     (localDate 2024 1 1)
     (start (makeSlot DEFAULT_CALENDAR_CONFIG (localDate 2024 1 1) 9 0))
   = [exampleAppointment ''bad'' (localDateTime 2024 1 1 9 20) (localDateTime 2024 1 1 9 10)]"
  by code_simp


section \<open>The hook: one run of the effect\<close>

lemma runEffect_success:
  assumes "fetchAppointments svc params = Inr data"
  shows "runEffect svc st params =
           \<lparr>appointments = sortByStartTime data, loading = False, error = None\<rparr>"
  using assms by (simp add: runEffect_def effectWrites_def)

lemma runEffect_failure:
  assumes "fetchAppointments svc params = Inl e"
  shows "runEffect svc st params = st\<lparr>loading := False, error := Some e\<rparr>"
  using assms by (simp add: runEffect_def effectWrites_def)

lemma runEffect_cases:
  obtains (success) data where "fetchAppointments svc params = Inr data"
  | (failure) e where "fetchAppointments svc params = Inl e"
  by (cases "fetchAppointments svc params") auto

lemma sorted_sortByStartTime: "sorted (map startTime (sortByStartTime data))"
  by (simp add: sortByStartTime_def)

lemma runEffect_keeps_sorted:
  assumes "sorted (map startTime (appointments st))"
  shows "sorted (map startTime (appointments (runEffect svc st params)))"
proof (cases rule: runEffect_cases[of svc params])
  case (success data)
  then show ?thesis by (simp add: runEffect_success sorted_sortByStartTime)
next
  case (failure e)
  then show ?thesis using assms by (simp add: runEffect_failure)
qed

lemma runSelections_keeps_sorted:
  assumes "sorted (map startTime (appointments st))"
  shows "sorted (map startTime (appointments (runSelections svc st ps)))"
  using assms unfolding runSelections_def
  by (induction ps arbitrary: st) (simp_all add: runEffect_keeps_sorted)

lemma runSelections_snoc:
  "runSelections svc st (ps @ [params]) = runEffect svc (runSelections svc st ps) params"
  by (simp add: runSelections_def)

lemma fetch_example_ok:
  "doctor \<noteq> ''doc-err'' \<Longrightarrow>
   fetchAppointments (exampleService store) (scheduleParams doctor day view) =
     Inr (filter (\<lambda>apt. doctorId apt = doctor) store)"
  by (cases view) (simp_all add: fetchAppointments_def exampleService_def scheduleParams_def Let_def)

lemma fetch_example_err:
  "fetchAppointments (exampleService store) (scheduleParams ''doc-err'' day view) =
     Inl (Error ''read failed'')"
  by (cases view) (simp_all add: fetchAppointments_def exampleService_def scheduleParams_def Let_def)

lemma example_doctor: "doctorId (exampleAppointment i s e) = ''doc-1''"
  by (simp add: exampleAppointment_def)


text \<open>
  C6. After every sequence of selections the exposed appointment list is sorted
  ascending by start time. A read that succeeds exposes the stable sort of what it
  returned: the same appointments, and appointments with the same start time in the order
  in which the read returned them.
\<close>

theorem exposed_appointments_sorted:
  "sorted (map startTime (appointments (runSelections svc initialState ps))) \<and>
   (fetchAppointments svc params = Inr data \<longrightarrow>
      sorted (map startTime (appointments (runEffect svc st params))) \<and>
      mset (appointments (runEffect svc st params)) = mset data \<and>
      (\<forall>k. filter (\<lambda>apt. startTime apt = k) (appointments (runEffect svc st params)) =
           filter (\<lambda>apt. startTime apt = k) data))"
proof (intro conjI impI)
  show "sorted (map startTime (appointments (runSelections svc initialState ps)))"
    by (rule runSelections_keeps_sorted) (simp add: initialState_def)
next
  assume ok: "fetchAppointments svc params = Inr data"
  show "sorted (map startTime (appointments (runEffect svc st params)))"
    by (simp add: runEffect_success[OF ok] sorted_sortByStartTime)
  show "mset (appointments (runEffect svc st params)) = mset data"
    by (simp add: runEffect_success[OF ok] sortByStartTime_def)
  show "\<forall>k. filter (\<lambda>apt. startTime apt = k) (appointments (runEffect svc st params)) =
           filter (\<lambda>apt. startTime apt = k) data"
    by (simp add: runEffect_success[OF ok] sortByStartTime_def sort_key_stable)
qed

theorem exposed_appointments_sorted_witness:
  "fetchAppointments
     (exampleService
        [exampleAppointment ''late'' (localDateTime 2024 1 1 10 0) (localDateTime 2024 1 1 10 30),
         exampleAppointment ''tie-b'' (localDateTime 2024 1 1 9 0) (localDateTime 2024 1 1 9 30),
         exampleAppointment ''tie-a'' (localDateTime 2024 1 1 9 0) (localDateTime 2024 1 1 9 15)])
     (scheduleParams ''doc-1'' (localDate 2024 1 1) Day)
   = Inr [exampleAppointment ''late'' (localDateTime 2024 1 1 10 0) (localDateTime 2024 1 1 10 30),
          exampleAppointment ''tie-b'' (localDateTime 2024 1 1 9 0) (localDateTime 2024 1 1 9 30),
          exampleAppointment ''tie-a'' (localDateTime 2024 1 1 9 0) (localDateTime 2024 1 1 9 15)] \<and>
   sorted (map startTime (appointments (runEffect
     (exampleService
        [exampleAppointment ''late'' (localDateTime 2024 1 1 10 0) (localDateTime 2024 1 1 10 30),
         exampleAppointment ''tie-b'' (localDateTime 2024 1 1 9 0) (localDateTime 2024 1 1 9 30),
         exampleAppointment ''tie-a'' (localDateTime 2024 1 1 9 0) (localDateTime 2024 1 1 9 15)])
     initialState (scheduleParams ''doc-1'' (localDate 2024 1 1) Day)))) \<and>
   appointments (runEffect
     (exampleService
        [exampleAppointment ''late'' (localDateTime 2024 1 1 10 0) (localDateTime 2024 1 1 10 30),
         exampleAppointment ''tie-b'' (localDateTime 2024 1 1 9 0) (localDateTime 2024 1 1 9 30),
         exampleAppointment ''tie-a'' (localDateTime 2024 1 1 9 0) (localDateTime 2024 1 1 9 15)])
     initialState (scheduleParams ''doc-1'' (localDate 2024 1 1) Day))
   = [exampleAppointment ''tie-b'' (localDateTime 2024 1 1 9 0) (localDateTime 2024 1 1 9 30),
      exampleAppointment ''tie-a'' (localDateTime 2024 1 1 9 0) (localDateTime 2024 1 1 9 15),
      exampleAppointment ''late'' (localDateTime 2024 1 1 10 0) (localDateTime 2024 1 1 10 30)]"
proof -
  let ?late = "exampleAppointment ''late'' (localDateTime 2024 1 1 10 0) (localDateTime 2024 1 1 10 30)"
  let ?b = "exampleAppointment ''tie-b'' (localDateTime 2024 1 1 9 0) (localDateTime 2024 1 1 9 30)"
  let ?a = "exampleAppointment ''tie-a'' (localDateTime 2024 1 1 9 0) (localDateTime 2024 1 1 9 15)"
  let ?svc = "exampleService [?late, ?b, ?a]"
  let ?p = "scheduleParams ''doc-1'' (localDate 2024 1 1) Day"
  have f: "fetchAppointments ?svc ?p = Inr [?late, ?b, ?a]"
    by (simp add: fetch_example_ok example_doctor)
  have s: "sortByStartTime [?late, ?b, ?a] = [?b, ?a, ?late]"
    by (simp add: sortByStartTime_def exampleAppointment_def localDateTime_ms)
  have r: "appointments (runEffect ?svc initialState ?p) = [?b, ?a, ?late]"
    by (simp add: runEffect_success[OF f] s)
  from f r exposed_appointments_sorted[of ?svc "[]" ?p "[?late, ?b, ?a]" initialState]
  show ?thesis by simp
qed

text \<open>
  C7. After a run of the effect the loading flag is false, whether the read returned or
  threw. A read that throws leaves its thrown value in the error state, a read that
  returns leaves the error state empty; the run itself always ends with a state.
\<close>

theorem query_settles:
  "loading (runEffect svc st params) = False \<and>
   (fetchAppointments svc params = Inl e \<longrightarrow> error (runEffect svc st params) = Some e) \<and>
   (fetchAppointments svc params = Inr data \<longrightarrow> error (runEffect svc st params) = None)"
proof (intro conjI impI)
  show "loading (runEffect svc st params) = False"
    by (cases rule: runEffect_cases[of svc params])
       (simp_all add: runEffect_success runEffect_failure)
next
  assume "fetchAppointments svc params = Inl e"
  then show "error (runEffect svc st params) = Some e" by (simp add: runEffect_failure)
next
  assume "fetchAppointments svc params = Inr data"
  then show "error (runEffect svc st params) = None" by (simp add: runEffect_success)
qed

theorem query_settles_witness:
  "fetchAppointments (exampleService []) (scheduleParams ''doc-err'' (localDate 2024 1 1) Day)
      = Inl (Error ''read failed'') \<and>
   loading (runEffect (exampleService []) initialState
      (scheduleParams ''doc-err'' (localDate 2024 1 1) Day)) = False \<and>
   error (runEffect (exampleService []) initialState
      (scheduleParams ''doc-err'' (localDate 2024 1 1) Day)) = Some (Error ''read failed'') \<and>
   fetchAppointments (exampleService []) (scheduleParams ''doc-1'' (localDate 2024 1 1) Week)
      = Inr [] \<and>
   loading (runEffect (exampleService []) initialState
      (scheduleParams ''doc-1'' (localDate 2024 1 1) Week)) = False \<and>
   error (runEffect (exampleService []) initialState
      (scheduleParams ''doc-1'' (localDate 2024 1 1) Week)) = None"
  using
    query_settles[of "exampleService []" initialState
      "scheduleParams ''doc-err'' (localDate 2024 1 1) Day" "Error ''read failed''" "[]"]
    query_settles[of "exampleService []" initialState
      "scheduleParams ''doc-1'' (localDate 2024 1 1) Week" "Error ''read failed''" "[]"]
  by (simp add: fetch_example_ok fetch_example_err)

text \<open>
  C10. When the read throws, the run writes the loading flag and the error state only:
  the exposed appointment list is the one exposed before the run.
\<close>

theorem failed_query_retains_appointments:
  assumes "fetchAppointments svc params = Inl e"
  shows "appointments (runEffect svc st params) = appointments st \<and>
         effectWrites svc params = [SetLoading True, SetError None, SetError (Some e), SetLoading False]"
  using assms by (simp add: runEffect_failure effectWrites_def)

theorem failed_query_retains_appointments_witness:
  "fetchAppointments (exampleService []) (scheduleParams ''doc-err'' (localDate 2024 1 2) Day)
      = Inl (Error ''read failed'') \<and>
   appointments (runEffect (exampleService [])
      \<lparr>appointments = [exampleAppointment ''a1'' (localDateTime 2024 1 1 9 0) (localDateTime 2024 1 1 9 30)],
       loading = False, error = None\<rparr>
      (scheduleParams ''doc-err'' (localDate 2024 1 2) Day))
     = [exampleAppointment ''a1'' (localDateTime 2024 1 1 9 0) (localDateTime 2024 1 1 9 30)]"
  using failed_query_retains_appointments[of "exampleService []"
      "scheduleParams ''doc-err'' (localDate 2024 1 2) Day" "Error ''read failed''"
      "\<lparr>appointments = [exampleAppointment ''a1'' (localDateTime 2024 1 1 9 0) (localDateTime 2024 1 1 9 30)],
       loading = False, error = None\<rparr>"]
  by (simp add: fetch_example_err)


section \<open>The hook: sequences of renders\<close>

text \<open>Renders that all run the effect are a sequence of effect runs.\<close>

lemma cellsAfterRenders_all_run:
  "cellsAfterRenders svc st (map (\<lambda>params. (params, True)) ps) = runSelections svc st ps"
  by (induction ps arbitrary: st)
     (simp_all add: cellsAfterRenders_def runSelections_def cellsAfterRender_def)










end
